theory Spec2Isabelle
  imports Main
begin

section \<open>The typed, frozen configuration object of \<open>src/config.ts\<close>\<close>

text \<open>
  The program is one TypeScript class:
  \<^verbatim>\<open>
  import { from } from 'env-var'

  export class Config {
    public constructor(private processEnv = process.env) {
      Object.freeze(this)
    }
    private env = from(this.processEnv)
    public readonly HOME = this.env.get('HOME').required().asString()
    public readonly DESTROY_DATABASE = this.env.get('DESTROY_DATABASE').required().asBool()
    public readonly COUNT = this.env.get('COUNT').required().asIntPositive()
  }
  \<close>
  \<open>new Config(m)\<close> runs, in this order: the default of the parameter, the parameter
  property \<open>this.processEnv = processEnv\<close>, the four property initialisers in the order
  they are declared, and last the constructor's body \<open>Object.freeze(this)\<close>. An
  exception thrown by an initialiser leaves the constructor at once.

  Objects are mutable and shared in JavaScript, so the model passes the store explicitly:
  a world holds the environment mappings (objects of type \<open>NodeJS.ProcessEnv\<close>, string
  keys to string values), the address of \<open>process.env\<close> among them, and the class
  instances. An exception is the \<open>Inl\<close> branch of the result.
\<close>

subsection \<open>Values, objects, the store\<close>

type_synonym addr = nat

datatype jsvalue =
    JUndefined
  | JString string
  | JBoolean bool
  | JNumber int
  | JDict addr    \<comment> \<open>a reference to an environment mapping\<close>
  | JFrom addr    \<comment> \<open>the object \<open>from(container)\<close> returns, closed over the container\<close>

record jsobject =
  props :: "string \<rightharpoonup> jsvalue"
  frozen :: bool

record world =
  dicts :: "addr \<Rightarrow> (string \<rightharpoonup> string)"
  process_env :: addr
  objs :: "jsobject list"

datatype error =
    MissingRequiredField string          \<comment> \<open>the source key\<close>
  | InvalidFieldValue string string      \<comment> \<open>the source key and the offending raw value\<close>
  | ReadOnlyProperty string              \<comment> \<open>TypeError: Cannot assign to read only property\<close>
  | NotExtensible string                 \<comment> \<open>TypeError: Cannot add property, object is not extensible\<close>
  | NoSuchObject addr                    \<comment> \<open>an address that holds no object (no JavaScript reference is one)\<close>

type_synonym 'a js = "world \<Rightarrow> world \<times> (error + 'a)"

definition return_js :: "'a \<Rightarrow> 'a js" where
  "return_js x w = (w, Inr x)"

definition lift :: "error + 'a \<Rightarrow> 'a js" where
  "lift r w = (w, r)"

text \<open>Sequencing: a statement that throws ends the run with the world as it is then.\<close>

definition seq :: "'a js \<Rightarrow> ('a \<Rightarrow> 'b js) \<Rightarrow> 'b js" where
  "seq m f w = (case m w of (w', Inl e) \<Rightarrow> (w', Inl e) | (w', Inr x) \<Rightarrow> f x w')"

subsection \<open>The JavaScript operations the constructor uses\<close>

text \<open>\<open>new\<close> allocates the instance: a fresh, empty, extensible object.\<close>

definition new_object :: "addr js" where
  "new_object w =
     (w\<lparr>objs := objs w @ [\<lparr>props = Map.empty, frozen = False\<rparr>]\<rparr>, Inr (length (objs w)))"

text \<open>
  The assignment \<open>o.k = v\<close>. On a frozen object it writes nothing, and what else it
  does depends on the code that makes it: strict-mode code (class bodies and modules,
  hence all code TypeScript compiles from a module) throws a TypeError; code that is not
  strict goes on as if the assignment had succeeded. \<open>strict\<close> says which code assigns.
\<close>

definition set_prop :: "bool \<Rightarrow> addr \<Rightarrow> string \<Rightarrow> jsvalue \<Rightarrow> unit js" where
  "set_prop strict a k v w =
     (if a < length (objs w) then
        (let obj = objs w ! a in
         if frozen obj then
           (if strict then
              (w, Inl (if k \<in> dom (props obj) then ReadOnlyProperty k else NotExtensible k))
            else (w, Inr ()))
         else (w\<lparr>objs := (objs w)[a := obj\<lparr>props := (props obj)(k \<mapsto> v)\<rparr>]\<rparr>, Inr ()))
      else (w, Inl (NoSuchObject a)))"

text \<open>\<open>Object.freeze(o)\<close> is shallow: it marks \<open>o\<close> itself and nothing \<open>o\<close> refers to.\<close>

definition Object_freeze :: "addr \<Rightarrow> unit js" where
  "Object_freeze a w =
     (if a < length (objs w) then
        (w\<lparr>objs := (objs w)[a := (objs w ! a)\<lparr>frozen := True\<rparr>]\<rparr>, Inr ())
      else (w, Inl (NoSuchObject a)))"

subsection \<open>The validation library\<close>

text \<open>
  The package \<open>env-var\<close> is a dependency of the repository and its code is not part of
  the sources. Its operations are modelled from the specification. What the
  specification leaves open is a parameter of the model:
  \<^item> whether a required key that is present with the empty string counts as missing
    (``or present but empty, depending on policy'');
  \<^item> which literals the boolean coercion recognises besides \<open>"true"\<close> and \<open>"false"\<close>
    (``a closed set of recognized truthy/falsy string literals (e.g., "true"/"false")'').
\<close>

record env_var =
  empty_is_missing :: bool
  more_literals :: "(string \<times> bool) list"

text \<open>
  Modelled from the spec: \<open>from(container)\<close> of env-var is missing. It wraps the
  supplied mapping, and only that mapping, for later lookups.
\<close>

definition env_from :: "addr \<Rightarrow> jsvalue" where
  "env_from container = JFrom container"

record variable =
  varName :: string
  raw :: "string option"
  isRequired :: bool

text \<open>
  Modelled from the spec: \<open>get(key)\<close> of env-var is missing. ``Look up the source key
  in the mapping''; it reads the mapping and changes nothing.
\<close>

definition get :: "addr \<Rightarrow> string \<Rightarrow> variable js" where
  "get container key w =
     (w, Inr \<lparr>varName = key, raw = dicts w container key, isRequired = False\<rparr>)"

text \<open>Modelled from the spec: \<open>required()\<close> of env-var is missing. It sets the required flag.\<close>

definition required :: "variable \<Rightarrow> variable" where
  "required v = v\<lparr>isRequired := True\<rparr>"

text \<open>
  Modelled from the spec: the step every accessor of env-var shares is missing. ``If the
  field is required and the key is absent (or present but empty, depending on policy):
  fail construction immediately with a descriptive error identifying the missing key. If
  present, coerce the raw string to the declared type. If coercion fails, construction
  fails with an error identifying which field and why.'' An optional field that is absent
  is undefined.
\<close>

definition coerce :: "env_var \<Rightarrow> (string \<Rightarrow> jsvalue option) \<Rightarrow> variable \<Rightarrow> error + jsvalue" where
  "coerce lib conv v =
     (case raw v of
        None \<Rightarrow> if isRequired v then Inl (MissingRequiredField (varName v)) else Inr JUndefined
      | Some s \<Rightarrow>
          if isRequired v \<and> empty_is_missing lib \<and> s = [] then
            Inl (MissingRequiredField (varName v))
          else
            (case conv s of
               None \<Rightarrow> Inl (InvalidFieldValue (varName v) s)
             | Some x \<Rightarrow> Inr x))"

text \<open>Modelled from the spec: \<open>asString()\<close> of env-var is missing. ``Pass through unchanged.''\<close>

definition asString :: "env_var \<Rightarrow> variable \<Rightarrow> error + jsvalue" where
  "asString lib = coerce lib (\<lambda>s. Some (JString s))"

text \<open>
  Modelled from the spec: \<open>asBool()\<close> of env-var is missing. ``Accept only a closed set
  of recognized truthy/falsy string literals (e.g., "true"/"false"); any other value is a
  validation failure, not a silent default.''
\<close>

definition recognized :: "env_var \<Rightarrow> (string \<times> bool) list" where
  "recognized lib = [(''true'', True), (''false'', False)] @ more_literals lib"

definition asBool :: "env_var \<Rightarrow> variable \<Rightarrow> error + jsvalue" where
  "asBool lib = coerce lib (\<lambda>s. map_option JBoolean (map_of (recognized lib) s))"

text \<open>
  Modelled from the spec: \<open>asIntPositive()\<close> of env-var is missing. ``Parse as a base-10
  integer; fail if the parse yields a non-integer, a non-positive value, or the raw
  string is not purely numeric.'' A numeric string is a non-empty run of decimal digits,
  with a minus sign in front for a negative integer.
\<close>

definition is_digit :: "char \<Rightarrow> bool" where
  "is_digit c = (c \<in> set ''0123456789'')"

definition digit_value :: "char \<Rightarrow> int" where
  "digit_value c = int (of_char c) - 48"

definition decimal :: "string \<Rightarrow> int" where
  "decimal ds = foldl (\<lambda>n c. 10 * n + digit_value c) 0 ds"

definition parse_int :: "string \<Rightarrow> int option" where
  "parse_int s =
     (case s of
        [] \<Rightarrow> None
      | c # r \<Rightarrow>
          if c = CHR ''-'' then
            (if r \<noteq> [] \<and> list_all is_digit r then Some (- decimal r) else None)
          else if list_all is_digit s then Some (decimal s)
          else None)"

definition asIntPositive :: "env_var \<Rightarrow> variable \<Rightarrow> error + jsvalue" where
  "asIntPositive lib =
     coerce lib (\<lambda>s. case parse_int s of
                       None \<Rightarrow> None
                     | Some n \<Rightarrow> if 0 < n then Some (JNumber n) else None)"

subsection \<open>The class\<close>

text \<open>
  \<open>arg\<close> is the constructor's argument: \<open>None\<close> when it is omitted, and then the default
  \<open>process.env\<close> is taken; otherwise the address of the supplied mapping.
  \<open>this.processEnv\<close> and \<open>this.env\<close> are read right after they are written, so the
  model uses the value just written. The assignments to \<open>this\<close> are made by the class
  body, which is strict-mode code.
\<close>

definition container_of :: "world \<Rightarrow> addr option \<Rightarrow> addr" where
  "container_of w arg = (case arg of None \<Rightarrow> process_env w | Some m \<Rightarrow> m)"

definition Config_new :: "env_var \<Rightarrow> addr option \<Rightarrow> addr js" where
  "Config_new lib arg =
     seq (\<lambda>w. (w, Inr (container_of w arg))) (\<lambda>processEnv.
     seq new_object (\<lambda>this.
     seq (set_prop True this ''processEnv'' (JDict processEnv)) (\<lambda>_.
     seq (set_prop True this ''env'' (env_from processEnv)) (\<lambda>_.
     seq (seq (get processEnv ''HOME'') (\<lambda>v. lift (asString lib (required v)))) (\<lambda>x.
     seq (set_prop True this ''HOME'' x) (\<lambda>_.
     seq (seq (get processEnv ''DESTROY_DATABASE'') (\<lambda>v. lift (asBool lib (required v)))) (\<lambda>x.
     seq (set_prop True this ''DESTROY_DATABASE'' x) (\<lambda>_.
     seq (seq (get processEnv ''COUNT'') (\<lambda>v. lift (asIntPositive lib (required v)))) (\<lambda>x.
     seq (set_prop True this ''COUNT'' x) (\<lambda>_.
     seq (Object_freeze this) (\<lambda>_.
     return_js this)))))))))))"

text \<open>
  What a caller sees of a run: the error, or the three public fields of the new object,
  read in the world the run leaves.
\<close>

definition prop_value :: "world \<Rightarrow> addr \<Rightarrow> string \<Rightarrow> jsvalue" where
  "prop_value w a k = (case props (objs w ! a) k of None \<Rightarrow> JUndefined | Some v \<Rightarrow> v)"

definition outcome :: "world \<times> (error + addr) \<Rightarrow> error + jsvalue \<times> jsvalue \<times> jsvalue" where
  "outcome r =
     (case snd r of
        Inl e \<Rightarrow> Inl e
      | Inr c \<Rightarrow> Inr (prop_value (fst r) c ''HOME'', prop_value (fst r) c ''DESTROY_DATABASE'',
                       prop_value (fst r) c ''COUNT''))"


subsection \<open>The specification's reading of the constructor\<close>

text \<open>
  The specification describes the constructor as one pass over a table of (key, required
  flag, coercion): each field in turn is looked up, checked and coerced, and the first
  failure is the result. \<open>validate_table\<close> is that description, as a function of the
  mapping alone.
\<close>

definition validate_table ::
    "env_var \<Rightarrow> (string \<rightharpoonup> string) \<Rightarrow> error + jsvalue \<times> jsvalue \<times> jsvalue" where
  "validate_table lib m =
     (case asString lib \<lparr>varName = ''HOME'', raw = m ''HOME'', isRequired = True\<rparr> of
        Inl e \<Rightarrow> Inl e
      | Inr h \<Rightarrow>
     (case asBool lib
             \<lparr>varName = ''DESTROY_DATABASE'', raw = m ''DESTROY_DATABASE'', isRequired = True\<rparr> of
        Inl e \<Rightarrow> Inl e
      | Inr d \<Rightarrow>
     (case asIntPositive lib \<lparr>varName = ''COUNT'', raw = m ''COUNT'', isRequired = True\<rparr> of
        Inl e \<Rightarrow> Inl e
      | Inr c \<Rightarrow> Inr (h, d, c))))"

subsection \<open>Concrete inputs\<close>

text \<open>
  A world with no instances yet: \<open>process.env\<close> is at address 0 and holds \<open>penv\<close>;
  every other address holds the mapping \<open>m\<close>.
\<close>

definition world_of :: "(string \<rightharpoonup> string) \<Rightarrow> (string \<rightharpoonup> string) \<Rightarrow> world" where
  "world_of penv m = \<lparr>dicts = (\<lambda>a. if a = 0 then penv else m), process_env = 0, objs = []\<rparr>"

definition example_lib :: env_var where
  "example_lib = \<lparr>empty_is_missing = False, more_literals = [(''1'', True), (''0'', False)]\<rparr>"

text \<open>The mapping of the test suite's \<open>configFactory\<close>, and the world its construction leaves.\<close>

definition factory_env :: "string \<rightharpoonup> string" where
  "factory_env = [''HOME'' \<mapsto> ''/'', ''DESTROY_DATABASE'' \<mapsto> ''true'', ''COUNT'' \<mapsto> ''1'']"

definition other_env :: "string \<rightharpoonup> string" where
  "other_env = [''HOME'' \<mapsto> ''/home'', ''DESTROY_DATABASE'' \<mapsto> ''false'', ''COUNT'' \<mapsto> ''2'']"

definition factory_world :: world where
  "factory_world =
     \<lparr>dicts = (\<lambda>a. if a = 0 then Map.empty else factory_env),
      process_env = 0,
      objs = [\<lparr>props = [''processEnv'' \<mapsto> JDict 1, ''env'' \<mapsto> JFrom 1,
                        ''HOME'' \<mapsto> JString ''/'', ''DESTROY_DATABASE'' \<mapsto> JBoolean True,
                        ''COUNT'' \<mapsto> JNumber 1],
               frozen = True\<rparr>]\<rparr>"


section \<open>Properties\<close>

subsection \<open>The constructor, characterised\<close>

lemmas js_defs = seq_def return_js_def lift_def new_object_def set_prop_def Object_freeze_def
  get_def required_def env_from_def

lemmas lib_defs = coerce_def asString_def asBool_def asIntPositive_def recognized_def
  parse_int_def is_digit_def decimal_def digit_value_def

text \<open>
  When every field validates, the run appends one frozen object holding the five
  properties and returns its address.
\<close>

lemma Config_new_success:
  assumes "validate_table lib (dicts w (container_of w arg)) = Inr (h, d, c)"
  shows "Config_new lib arg w =
    (w\<lparr>objs := objs w @ [\<lparr>props = [''processEnv'' \<mapsto> JDict (container_of w arg),
          ''env'' \<mapsto> JFrom (container_of w arg), ''HOME'' \<mapsto> h, ''DESTROY_DATABASE'' \<mapsto> d,
          ''COUNT'' \<mapsto> c], frozen = True\<rparr>]\<rparr>, Inr (length (objs w)))"
  using assms
  by (simp add: Config_new_def validate_table_def js_defs split: sum.splits)

text \<open>When a field fails, the run throws that field's error.\<close>

lemma Config_new_failure:
  assumes "validate_table lib (dicts w (container_of w arg)) = Inl e"
  shows "snd (Config_new lib arg w) = Inl e"
  using assms
  by (simp add: Config_new_def validate_table_def js_defs split: sum.splits)

text \<open>
  Whatever the result, the run changes no mapping, leaves \<open>process.env\<close> where it was,
  and adds exactly one object behind those that were there.
\<close>

lemma Config_new_frame:
  "dicts (fst (Config_new lib arg w)) = dicts w \<and>
   process_env (fst (Config_new lib arg w)) = process_env w \<and>
   length (objs (fst (Config_new lib arg w))) = Suc (length (objs w)) \<and>
   take (length (objs w)) (objs (fst (Config_new lib arg w))) = objs w"
  by (simp add: Config_new_def js_defs split: sum.splits)

lemma Config_new_address:
  "snd (Config_new lib arg w) = Inr c \<Longrightarrow> c = length (objs w)"
  by (cases "validate_table lib (dicts w (container_of w arg))")
     (auto simp: Config_new_failure Config_new_success)

lemma outcome_validate_table:
  "outcome (Config_new lib arg w) = validate_table lib (dicts w (container_of w arg))"
proof (cases "validate_table lib (dicts w (container_of w arg))")
  case (Inl e)
  then show ?thesis
    by (simp add: outcome_def Config_new_failure)
next
  case (Inr t)
  obtain h d c where t: "t = (h, d, c)"
    by (cases t) auto
  show ?thesis
    using Inr unfolding t
    by (simp add: outcome_def prop_value_def Config_new_success)
qed

lemma absent_key_fails:
  assumes "k \<in> {''HOME'', ''DESTROY_DATABASE'', ''COUNT''}"
      and "dicts w (container_of w arg) k = None"
  shows "isl (snd (Config_new lib arg w))"
proof -
  have "\<exists>e. validate_table lib (dicts w (container_of w arg)) = Inl e"
    using assms
    by (auto simp: validate_table_def asString_def asBool_def asIntPositive_def coerce_def
             split: sum.splits option.splits)
  then obtain e where "validate_table lib (dicts w (container_of w arg)) = Inl e" ..
  then show ?thesis
    by (simp add: Config_new_failure)
qed

lemma factory_run:
  "Config_new example_lib (Some 1) (world_of Map.empty factory_env) = (factory_world, Inr 0)"
  unfolding factory_env_def factory_world_def world_of_def
  by (simp add: Config_new_def container_of_def js_defs lib_defs example_lib_def)

subsection \<open>Parsing a valid environment\<close>

text \<open>
  Claim C1. For the mapping \<open>{HOME: "/", DESTROY_DATABASE: "true", COUNT: "1"}\<close>
  construction succeeds, and the object's \<open>HOME\<close> is the string \<open>"/"\<close>, its
  \<open>DESTROY_DATABASE\<close> the boolean true and its \<open>COUNT\<close> the number 1. This holds
  whatever else the mapping holds, and for every choice of the library's parameters.
\<close>

theorem valid_mapping_parses:
  assumes "dicts w a ''HOME'' = Some ''/''"
      and "dicts w a ''DESTROY_DATABASE'' = Some ''true''"
      and "dicts w a ''COUNT'' = Some ''1''"
  shows "outcome (Config_new lib (Some a) w) = Inr (JString ''/'', JBoolean True, JNumber 1)"
  using assms
  by (simp add: outcome_validate_table container_of_def validate_table_def lib_defs)

theorem valid_mapping_parses_witness:
  "outcome (Config_new example_lib (Some 1) (world_of Map.empty factory_env))
   = Inr (JString ''/'', JBoolean True, JNumber 1)"
  using valid_mapping_parses [of "world_of Map.empty factory_env" 1 example_lib]
  by (simp add: world_of_def factory_env_def)

text \<open>
  A non-empty \<open>HOME\<close> and a \<open>COUNT\<close> that is the numeral of a positive integer are
  valid under every policy.
\<close>

lemma asString_valid:
  assumes "m ''HOME'' = Some s" and "s \<noteq> []"
  shows "asString lib \<lparr>varName = ''HOME'', raw = m ''HOME'', isRequired = True\<rparr> = Inr (JString s)"
  using assms by (simp add: asString_def coerce_def)

lemma asIntPositive_valid:
  assumes "m ''COUNT'' = Some s" and "parse_int s = Some n" and "0 < n"
  shows "asIntPositive lib \<lparr>varName = ''COUNT'', raw = m ''COUNT'', isRequired = True\<rparr>
           = Inr (JNumber n)"
proof -
  from assms(2) have "s \<noteq> []"
    by (auto simp: parse_int_def)
  with assms show ?thesis
    by (simp add: asIntPositive_def coerce_def)
qed

text \<open>
  Claim C5. With \<open>DESTROY_DATABASE: "false"\<close> and the other two fields valid, whatever
  their values, construction succeeds and the object's \<open>DESTROY_DATABASE\<close> is the
  boolean false: not a string, and not true. A field is valid when its own coercion
  accepts its raw value; the two other fields of the object are then the coerced values.
\<close>

theorem false_literal_is_false:
  assumes "dicts w a ''DESTROY_DATABASE'' = Some ''false''"
      and "asString lib \<lparr>varName = ''HOME'', raw = dicts w a ''HOME'', isRequired = True\<rparr>
             = Inr h"
      and "asIntPositive lib \<lparr>varName = ''COUNT'', raw = dicts w a ''COUNT'', isRequired = True\<rparr>
             = Inr c"
  shows "outcome (Config_new lib (Some a) w) = Inr (h, JBoolean False, c)"
proof -
  have "asBool lib
          \<lparr>varName = ''DESTROY_DATABASE'', raw = dicts w a ''DESTROY_DATABASE'', isRequired = True\<rparr>
        = Inr (JBoolean False)"
    using assms(1) by (simp add: asBool_def coerce_def recognized_def)
  with assms(2,3) have "validate_table lib (dicts w a) = Inr (h, JBoolean False, c)"
    by (simp add: validate_table_def)
  then show ?thesis
    by (simp add: outcome_validate_table container_of_def)
qed

theorem false_literal_is_false_witness:
  "outcome (Config_new example_lib (Some 1)
     (world_of Map.empty
        [''HOME'' \<mapsto> ''/'', ''DESTROY_DATABASE'' \<mapsto> ''false'', ''COUNT'' \<mapsto> ''1'']))
   = Inr (JString ''/'', JBoolean False, JNumber 1) \<and>
   outcome (Config_new example_lib (Some 1) (world_of Map.empty other_env))
   = Inr (JString ''/home'', JBoolean False, JNumber 2)"
  using false_literal_is_false [of
      "world_of Map.empty
         [''HOME'' \<mapsto> ''/'', ''DESTROY_DATABASE'' \<mapsto> ''false'', ''COUNT'' \<mapsto> ''1'']"
      1 example_lib "JString ''/''" "JNumber 1"]
    false_literal_is_false [of "world_of Map.empty other_env" 1 example_lib
      "JString ''/home''" "JNumber 2"]
  by (simp add: world_of_def other_env_def lib_defs)

subsection \<open>Immutability\<close>

text \<open>
  Claim C2, as the code has it. After a successful construction, an assignment to any of
  the object's fields (the two private ones included) never changes the field: the world,
  hence the field's value, stays as construction left it. Strict-mode code, which the test
  suite and every TypeScript module are, gets the TypeError for a read-only property;
  code that is not strict gets no error, and its write is ignored.
\<close>

theorem frozen_fields_keep_values:
  assumes "Config_new lib arg w = (w', Inr c)"
      and "k \<in> {''processEnv'', ''env'', ''HOME'', ''DESTROY_DATABASE'', ''COUNT''}"
  shows "set_prop strict c k v w' = (w', if strict then Inl (ReadOnlyProperty k) else Inr ()) \<and>
         prop_value (fst (set_prop strict c k v w')) c k = prop_value w' c k"
proof (cases "validate_table lib (dicts w (container_of w arg))")
  case (Inl e)
  then show ?thesis
    using assms(1) Config_new_failure [of lib w arg e] by simp
next
  case (Inr t)
  obtain h d n where t: "t = (h, d, n)"
    by (cases t) auto
  from Inr t assms(1)
  have w': "w' = w\<lparr>objs := objs w @ [\<lparr>props = [''processEnv'' \<mapsto> JDict (container_of w arg),
          ''env'' \<mapsto> JFrom (container_of w arg), ''HOME'' \<mapsto> h, ''DESTROY_DATABASE'' \<mapsto> d,
          ''COUNT'' \<mapsto> n], frozen = True\<rparr>]\<rparr>"
    and c: "c = length (objs w)"
    by (simp_all add: Config_new_success)
  have "set_prop strict c k v w' = (w', if strict then Inl (ReadOnlyProperty k) else Inr ())"
    using assms(2) unfolding w' c
    by (auto simp: set_prop_def)
  then show ?thesis by simp
qed

theorem frozen_fields_keep_values_witness:
  "Config_new example_lib (Some 1) (world_of Map.empty factory_env) = (factory_world, Inr 0) \<and>
   set_prop True 0 ''COUNT'' (JNumber 2) factory_world
     = (factory_world, Inl (ReadOnlyProperty ''COUNT'')) \<and>
   prop_value (fst (set_prop True 0 ''COUNT'' (JNumber 2) factory_world)) 0 ''COUNT'' = JNumber 1 \<and>
   prop_value (fst (set_prop False 0 ''COUNT'' (JNumber 2) factory_world)) 0 ''COUNT'' = JNumber 1"
proof -
  have "''COUNT'' \<in> {''processEnv'', ''env'', ''HOME'', ''DESTROY_DATABASE'', ''COUNT''}"
    by simp
  from frozen_fields_keep_values [OF factory_run this, of True "JNumber 2"]
    frozen_fields_keep_values [OF factory_run this, of False "JNumber 2"] factory_run
  show ?thesis
    by (simp add: prop_value_def factory_world_def)
qed

text \<open>
  The claim as it was written, that every such assignment raises, fails for the object of
  the test suite's \<open>configFactory\<close>: assigned to by code that is not strict,
  \<open>config.COUNT = 2\<close> raises nothing.
\<close>

theorem sloppy_write_raises_nothing:
  "Config_new example_lib (Some 1) (world_of Map.empty factory_env) = (factory_world, Inr 0) \<and>
   set_prop False 0 ''COUNT'' (JNumber 2) factory_world = (factory_world, Inr ())"
proof -
  have "set_prop False 0 ''COUNT'' (JNumber 2) factory_world = (factory_world, Inr ())"
    by (simp add: set_prop_def factory_world_def)
  with factory_run show ?thesis by simp
qed

subsection \<open>Rejected values and missing keys\<close>

text \<open>
  Claim C3. The boolean coercion of \<open>DESTROY_DATABASE\<close> accepts the recognized
  literals and nothing else: for every raw string outside that set construction fails,
  and nothing is coerced to a default or to true. When \<open>HOME\<close> is valid and the raw
  string is not empty, the error is the invalid value of \<open>DESTROY_DATABASE\<close>. The
  string \<open>"yes"\<close> is the instance of the witness.
\<close>

theorem unrecognized_literal_fails:
  assumes "dicts w a ''DESTROY_DATABASE'' = Some s"
      and "s \<notin> fst ` set (recognized lib)"
  shows "isl (snd (Config_new lib (Some a) w)) \<and>
         (dicts w a ''HOME'' = Some h \<and> h \<noteq> [] \<and> s \<noteq> [] \<longrightarrow>
          snd (Config_new lib (Some a) w) = Inl (InvalidFieldValue ''DESTROY_DATABASE'' s))"
proof -
  from assms(2) have none: "map_of (recognized lib) s = None"
    by (simp add: map_of_eq_None_iff)
  have "\<exists>e. asBool lib
              \<lparr>varName = ''DESTROY_DATABASE'', raw = Some s, isRequired = True\<rparr> = Inl e"
    using none by (simp add: asBool_def coerce_def)
  then have "\<exists>e. validate_table lib (dicts w a) = Inl e"
    using assms(1) by (auto simp: validate_table_def split: sum.splits)
  then obtain e where "validate_table lib (dicts w a) = Inl e" ..
  then have fails: "isl (snd (Config_new lib (Some a) w))"
    using Config_new_failure [of lib w "Some a" e] by (simp add: container_of_def)
  have exact: "snd (Config_new lib (Some a) w) = Inl (InvalidFieldValue ''DESTROY_DATABASE'' s)"
    if "dicts w a ''HOME'' = Some h" "h \<noteq> []" "s \<noteq> []"
  proof -
    have "validate_table lib (dicts w a) = Inl (InvalidFieldValue ''DESTROY_DATABASE'' s)"
      using that none assms(1)
      by (simp add: validate_table_def asString_def asBool_def coerce_def)
    then show ?thesis
      using Config_new_failure [of lib w "Some a"] by (simp add: container_of_def)
  qed
  from fails exact show ?thesis by blast
qed

theorem unrecognized_literal_fails_witness:
  "snd (Config_new example_lib (Some 1)
     (world_of Map.empty
        [''HOME'' \<mapsto> ''/'', ''DESTROY_DATABASE'' \<mapsto> ''yes'', ''COUNT'' \<mapsto> ''1'']))
   = Inl (InvalidFieldValue ''DESTROY_DATABASE'' ''yes'')"
  using unrecognized_literal_fails [of
      "world_of Map.empty
         [''HOME'' \<mapsto> ''/'', ''DESTROY_DATABASE'' \<mapsto> ''yes'', ''COUNT'' \<mapsto> ''1'']"
      1 "''yes''" example_lib "''/''"]
  by (simp add: world_of_def recognized_def example_lib_def)

text \<open>
  Claim C6. Every declared field is required: when the mapping the constructor reads (the
  argument, or \<open>process.env\<close> when there is none) lacks one of the three keys,
  construction fails; when it lacks all three, as the empty mapping does, the error names
  the first missing key, \<open>HOME\<close>.
\<close>

theorem missing_keys_fail:
  "(k \<in> {''HOME'', ''DESTROY_DATABASE'', ''COUNT''} \<and> dicts w (container_of w arg) k = None \<longrightarrow>
      isl (snd (Config_new lib arg w))) \<and>
   (dicts w (container_of w arg) ''HOME'' = None \<and>
    dicts w (container_of w arg) ''DESTROY_DATABASE'' = None \<and>
    dicts w (container_of w arg) ''COUNT'' = None \<longrightarrow>
      snd (Config_new lib arg w) = Inl (MissingRequiredField ''HOME''))"
proof -
  have "snd (Config_new lib arg w) = Inl (MissingRequiredField ''HOME'')"
    if "dicts w (container_of w arg) ''HOME'' = None"
  proof -
    have "validate_table lib (dicts w (container_of w arg)) = Inl (MissingRequiredField ''HOME'')"
      using that by (simp add: validate_table_def asString_def coerce_def)
    then show ?thesis
      by (simp add: Config_new_failure)
  qed
  then show ?thesis
    using absent_key_fails [of k w arg lib] by blast
qed

theorem missing_keys_fail_witness:
  "snd (Config_new example_lib None (world_of Map.empty Map.empty))
     = Inl (MissingRequiredField ''HOME'') \<and>
   snd (Config_new example_lib (Some 1) (world_of Map.empty Map.empty))
     = Inl (MissingRequiredField ''HOME'') \<and>
   isl (snd (Config_new example_lib (Some 1)
     (world_of Map.empty [''HOME'' \<mapsto> ''/'', ''DESTROY_DATABASE'' \<mapsto> ''true''])))"
  using missing_keys_fail [of "''HOME''" "world_of Map.empty Map.empty" None example_lib]
    missing_keys_fail [of "''HOME''" "world_of Map.empty Map.empty" "Some 1" example_lib]
    missing_keys_fail [of "''COUNT''"
      "world_of Map.empty [''HOME'' \<mapsto> ''/'', ''DESTROY_DATABASE'' \<mapsto> ''true'']"
      "Some 1" example_lib]
  by (simp add: world_of_def container_of_def)

subsection \<open>Which mapping is read, and what is written\<close>

text \<open>
  Claim C7. When an override mapping is supplied, exactly that mapping is consulted: the
  outcome is what the table gives on the override, whatever \<open>process.env\<close> and every
  other mapping hold. So two worlds that agree on the override give the same outcome;
  and a key the override lacks is absent, so a field that needs it makes construction
  fail, whether or not \<open>process.env\<close> has the key. In the witness \<open>process.env\<close>
  holds one valid environment and the override another, and the object has the
  override's values; with \<open>COUNT\<close> taken out of the override, construction fails.
\<close>

theorem override_is_the_only_source:
  "outcome (Config_new lib (Some a) w) = validate_table lib (dicts w a) \<and>
   (dicts w' a = dicts w a \<longrightarrow>
      outcome (Config_new lib (Some a) w') = outcome (Config_new lib (Some a) w)) \<and>
   (k \<in> {''HOME'', ''DESTROY_DATABASE'', ''COUNT''} \<and> dicts w a k = None \<longrightarrow>
      isl (snd (Config_new lib (Some a) w)))"
  using absent_key_fails [of k w "Some a" lib]
  by (simp add: outcome_validate_table container_of_def)

theorem override_is_the_only_source_witness:
  "outcome (Config_new example_lib (Some 1) (world_of factory_env other_env))
     = Inr (JString ''/home'', JBoolean False, JNumber 2) \<and>
   outcome (Config_new example_lib (Some 1) (world_of factory_env other_env))
     = outcome (Config_new example_lib (Some 1) (world_of Map.empty other_env)) \<and>
   snd (Config_new example_lib (Some 1)
      (world_of factory_env [''HOME'' \<mapsto> ''/home'', ''DESTROY_DATABASE'' \<mapsto> ''false'']))
     = Inl (MissingRequiredField ''COUNT'')"
proof -
  have run: "outcome (Config_new example_lib (Some 1) (world_of factory_env other_env))
      = Inr (JString ''/home'', JBoolean False, JNumber 2)"
    using override_is_the_only_source [of example_lib 1 "world_of factory_env other_env"]
    by (simp add: validate_table_def lib_defs world_of_def other_env_def)
  have same: "outcome (Config_new example_lib (Some 1) (world_of factory_env other_env))
      = outcome (Config_new example_lib (Some 1) (world_of Map.empty other_env))"
    using override_is_the_only_source [of example_lib 1 "world_of factory_env other_env"
        "world_of Map.empty other_env"]
    by (simp add: world_of_def)
  have "isl (snd (Config_new example_lib (Some 1)
      (world_of factory_env [''HOME'' \<mapsto> ''/home'', ''DESTROY_DATABASE'' \<mapsto> ''false''])))"
    using override_is_the_only_source [of example_lib 1
        "world_of factory_env [''HOME'' \<mapsto> ''/home'', ''DESTROY_DATABASE'' \<mapsto> ''false'']" _
        "''COUNT''"]
    by (simp add: world_of_def)
  moreover have "validate_table example_lib
      (dicts (world_of factory_env [''HOME'' \<mapsto> ''/home'', ''DESTROY_DATABASE'' \<mapsto> ''false'']) 1)
      = Inl (MissingRequiredField ''COUNT'')"
    by (simp add: validate_table_def lib_defs world_of_def)
  then have "snd (Config_new example_lib (Some 1)
      (world_of factory_env [''HOME'' \<mapsto> ''/home'', ''DESTROY_DATABASE'' \<mapsto> ''false'']))
      = Inl (MissingRequiredField ''COUNT'')"
    using Config_new_failure [of example_lib _ "Some 1"] by (simp add: container_of_def)
  ultimately show ?thesis
    using run same by simp
qed

text \<open>
  Claim C8. The field values of a constructed object are a function of the mapping it was
  constructed from: the outcome is what the table gives on that mapping, in every world.
  And two constructions, one after the other, do not interfere: the second leaves the
  first object's fields as they were, and its own outcome is what it would have been had
  the first never run.
\<close>

theorem constructions_do_not_interfere:
  "outcome (Config_new lib (Some a) w) = validate_table lib (dicts w a) \<and>
   (let r1 = Config_new lib (Some a1) w;
        r2 = Config_new lib (Some a2) (fst r1)
    in outcome (fst r2, snd r1) = outcome r1 \<and>
       outcome r2 = outcome (Config_new lib (Some a2) w))"
proof -
  define r1 where "r1 = Config_new lib (Some a1) w"
  define r2 where "r2 = Config_new lib (Some a2) (fst r1)"
  have dicts1: "dicts (fst r1) = dicts w"
    unfolding r1_def using Config_new_frame [of lib "Some a1" w] by simp
  have second: "outcome r2 = outcome (Config_new lib (Some a2) w)"
    unfolding r2_def by (simp add: outcome_validate_table container_of_def dicts1)
  have first: "outcome (fst r2, snd r1) = outcome r1"
  proof (cases "snd r1")
    case (Inl e)
    then show ?thesis by (simp add: outcome_def)
  next
    case (Inr c)
    then have c: "c = length (objs w)"
      unfolding r1_def by (rule Config_new_address)
    have len1: "length (objs (fst r1)) = Suc (length (objs w))"
      unfolding r1_def using Config_new_frame [of lib "Some a1" w] by simp
    have "take (length (objs (fst r1))) (objs (fst r2)) = objs (fst r1)"
      unfolding r2_def using Config_new_frame [of lib "Some a2" "fst r1"] by simp
    then have "objs (fst r2) ! c = objs (fst r1) ! c"
      using c len1 by (metis lessI nth_take)
    then show ?thesis
      using Inr by (simp add: outcome_def prop_value_def)
  qed
  from first second show ?thesis
    by (simp add: outcome_validate_table container_of_def r1_def r2_def Let_def)
qed

theorem constructions_do_not_interfere_witness:
  "outcome (fst (Config_new example_lib (Some 1)
                   (fst (Config_new example_lib (Some 0) (world_of factory_env other_env)))),
            snd (Config_new example_lib (Some 0) (world_of factory_env other_env)))
     = Inr (JString ''/'', JBoolean True, JNumber 1) \<and>
   outcome (Config_new example_lib (Some 1)
              (fst (Config_new example_lib (Some 0) (world_of factory_env other_env))))
     = Inr (JString ''/home'', JBoolean False, JNumber 2)"
  using constructions_do_not_interfere [of example_lib 0 "world_of factory_env other_env" 0 1]
    constructions_do_not_interfere [of example_lib 1 "world_of factory_env other_env" 0 1]
  by (simp add: Let_def validate_table_def lib_defs world_of_def factory_env_def other_env_def)

text \<open>
  Claim C9. Construction never mutates the environment: after the run, successful or
  not, every mapping (the supplied one and \<open>process.env\<close> among them) is what it was
  before, and \<open>process.env\<close> is the same object.
\<close>

theorem mapping_not_mutated:
  "dicts (fst (Config_new lib arg w)) = dicts w \<and>
   process_env (fst (Config_new lib arg w)) = process_env w"
  using Config_new_frame [of lib arg w] by simp


theorem mapping_not_mutated_witness:
  "dicts (fst (Config_new example_lib (Some 1) (world_of Map.empty factory_env))) 1 = factory_env \<and>
   dicts (fst (Config_new example_lib (Some 1) (world_of Map.empty Map.empty))) 1 = Map.empty"
  using mapping_not_mutated [of example_lib "Some 1" "world_of Map.empty factory_env"]
    mapping_not_mutated [of example_lib "Some 1" "world_of Map.empty Map.empty"]
  by (simp add: world_of_def)

subsection \<open>The empty string\<close>

text \<open>
  The specification leaves open whether a required key that is present with the empty
  string counts as missing, and the model follows whichever policy the library has: with
  \<open>HOME: ""\<close> and the other two fields valid, construction fails under the one policy
  and yields the empty string under the other.
\<close>

lemma empty_HOME_follows_policy:
  assumes "dicts w a ''HOME'' = Some []"
      and "dicts w a ''DESTROY_DATABASE'' = Some ''true''"
      and "dicts w a ''COUNT'' = Some ''1''"
  shows "outcome (Config_new lib (Some a) w) =
           (if empty_is_missing lib then Inl (MissingRequiredField ''HOME'')
            else Inr (JString [], JBoolean True, JNumber 1))"
  using assms
  by (simp add: outcome_validate_table container_of_def validate_table_def lib_defs)

end
